theory Spec2Isabelle
  imports Main
begin

section \<open>Errors and outcomes\<close>

text \<open>
  Go's \<open>error\<close> values. The sentinel errors the code or its libraries compare by identity
  are constructors of their own (\<open>io.EOF\<close>, \<open>http.ErrServerClosed\<close>,
  \<open>context.DeadlineExceeded\<close>); every other error is \<open>Err\<close> with its message.
  A Go function returning \<open>error\<close> returns \<open>error option\<close> here, \<open>None\<close> for \<open>nil\<close>.
\<close>

datatype error = EOF | ErrServerClosed | DeadlineExceeded | Err string

fun Error :: "error \<Rightarrow> string" where
  "Error EOF = ''EOF''"
| "Error ErrServerClosed = ''http: Server closed''"
| "Error DeadlineExceeded = ''context deadline exceeded''"
| "Error (Err msg) = msg"

text \<open>A call either returns or panics (an index out of range).\<close>

datatype 'a outcome = Returns 'a | Panics

section \<open>The server handle (trigger/gin/server.go)\<close>

text \<open>\<open>time.Duration\<close> counts nanoseconds.\<close>

type_synonym duration = int

definition Second :: duration where
  "Second = 1000000000"

definition httpDefaultAddr :: string where
  "httpDefaultAddr = '':8080''"

definition httpDefaultTlsAddr :: string where
  "httpDefaultTlsAddr = '':8443''"

definition httpDefaultReadTimeout :: duration where
  "httpDefaultReadTimeout = 60 * Second"

definition httpDefaultWriteTimeout :: duration where
  "httpDefaultWriteTimeout = 60 * Second"

text \<open>
  The struct \<open>Server\<close> together with the fields of its \<open>*http.Server\<close> that the code
  sets (\<open>Addr\<close>, \<open>ReadTimeout\<close>, \<open>WriteTimeout\<close>). The \<open>Handler\<close> field is stored
  once by \<open>NewServer\<close> and never read or written again by this file; it is left out.
\<close>

record Server =
  running :: bool
  Addr :: string
  ReadTimeout :: duration
  WriteTimeout :: duration
  tlsEnabled :: bool
  certFile :: string
  keyFile :: string

text \<open>\<open>type Option func(*Server)\<close>: an option is a state transformer of the handle.\<close>

type_synonym Option = "Server \<Rightarrow> Server"

definition TLS :: "string \<Rightarrow> string \<Rightarrow> Option" where
  "TLS cf kf s =
     (let s1 = s\<lparr>tlsEnabled := True, certFile := cf, keyFile := kf\<rparr>
      in if Addr s1 = [] then s1\<lparr>Addr := httpDefaultTlsAddr\<rparr> else s1)"

definition Timeouts :: "duration \<Rightarrow> duration \<Rightarrow> Option" where
  "Timeouts readTimeout writeTimeout s =
     s\<lparr>ReadTimeout := readTimeout, WriteTimeout := writeTimeout\<rparr>"

text \<open>
  \<open>validateInit\<close>. The parameter \<open>LoadX509KeyPair\<close> stands for
  \<open>tls.LoadX509KeyPair\<close>, which reads the two files: its error, if any.
\<close>

definition validateInit :: "(string \<Rightarrow> string \<Rightarrow> error option) \<Rightarrow> Server \<Rightarrow> error option" where
  "validateInit LoadX509KeyPair s =
     (if tlsEnabled s then
        (if certFile s = [] \<or> keyFile s = []
         then Some (Err ''when TLS is enabled, both cert file and key file must be specified'')
         else LoadX509KeyPair (certFile s) (keyFile s))
      else None)"

definition NewServer ::
  "(string \<Rightarrow> string \<Rightarrow> error option) \<Rightarrow> string \<Rightarrow> Option list \<Rightarrow> error + Server" where
  "NewServer LoadX509KeyPair addr opts =
     (let addr1 = (if addr = [] then httpDefaultAddr else addr);
          srv = \<lparr>running = False, Addr = addr1,
                 ReadTimeout = httpDefaultReadTimeout, WriteTimeout = httpDefaultWriteTimeout,
                 tlsEnabled = False, certFile = [], keyFile = []\<rparr>;
          srv1 = fold (\<lambda>opt s. opt s) opts srv
      in case validateInit LoadX509KeyPair srv1 of
           Some err \<Rightarrow> Inl err
         | None \<Rightarrow> Inr srv1)"

text \<open>
  What a call does to the world besides its return value and the handle: the port probe
  of \<open>validateStart\<close> (\<open>net.Listen\<close> then \<open>Close\<close>), the \<open>go\<close> statement that
  starts the accept loop, and the call of \<open>http.Server.Shutdown\<close> with the deadline of
  its context. Log lines are not recorded.
\<close>

datatype goroutine = ListenAndServeTLS string string | ListenAndServe

datatype effect = Probe string | Go goroutine | CallShutdown duration

text \<open>\<open>validateStart\<close>; \<open>Listen\<close> stands for \<open>net.Listen("tcp", _)\<close>: its error, if any.\<close>

definition validateStart :: "(string \<Rightarrow> error option) \<Rightarrow> Server \<Rightarrow> error option" where
  "validateStart Listen s = Listen (Addr s)"

text \<open>
  \<open>fullAddr\<close> of \<open>Start\<close>, used in the log line only; \<open>fullAddr[0]\<close> panics on the
  empty string.
\<close>

definition fullAddr :: "Server \<Rightarrow> string outcome" where
  "fullAddr s =
     (case Addr s of
        [] \<Rightarrow> Panics
      | c # _ \<Rightarrow> Returns (if c = CHR '':'' then ''0.0.0.0'' @ Addr s else Addr s))"

text \<open>
  \<open>Start\<close> returns its error, the handle as it leaves it, and its effects in order.
\<close>

definition Start ::
  "(string \<Rightarrow> error option) \<Rightarrow> Server \<Rightarrow> (error option \<times> Server \<times> effect list) outcome" where
  "Start Listen s =
     (if running s then Returns (None, s, [])
      else case validateStart Listen s of
             Some err \<Rightarrow> Returns (Some err, s, [Probe (Addr s)])
           | None \<Rightarrow>
               (case fullAddr s of
                  Panics \<Rightarrow> Panics
                | Returns full \<Rightarrow>
                    Returns (None, s\<lparr>running := True\<rparr>,
                      [Probe (Addr s),
                       Go (if tlsEnabled s then ListenAndServeTLS (certFile s) (keyFile s)
                           else ListenAndServe)])))"


text \<open>
  \<open>Stop\<close>; \<open>Shutdown\<close> stands for \<open>s.srv.Shutdown(ctx)\<close> as a function of the
  deadline of \<open>ctx\<close>.
\<close>

definition Stop ::
  "(duration \<Rightarrow> error option) \<Rightarrow> Server \<Rightarrow> error option \<times> Server \<times> effect list" where
  "Stop Shutdown s =
     (if \<not> running s then (None, s, [])
      else (Shutdown (5 * Second), s, [CallShutdown (5 * Second)]))"



section \<open>Values, headers and the request context (the handler adapter)\<close>

text \<open>
  Go's dynamic values (\<open>interface{}\<close>) as they occur in the message content and in the
  reply data: \<open>nil\<close>, booleans, numbers, strings, slices and string-keyed maps. A number
  is carried as its decimal text: \<open>float64\<close> arithmetic is not modelled. A map is the
  list of its entries in iteration order.
\<close>

datatype val =
    VNil
  | VBool bool
  | VNum string
  | VStr string
  | VArr "val list"
  | VMap "(string \<times> val) list"

text \<open>\<open>strings.Join\<close>.\<close>

fun Join :: "string list \<Rightarrow> string \<Rightarrow> string" where
  "Join [] sep = []"
| "Join [x] sep = x"
| "Join (x # y # ys) sep = x @ sep @ Join (y # ys) sep"

text \<open>
  \<open>http.Header\<close> is \<open>map[string][]string\<close>; \<open>Get\<close> and \<open>Set\<close> go through
  \<open>textproto.CanonicalMIMEHeaderKey\<close>: a key made of token bytes only gets an upper-case
  letter first and after each dash and lower-case letters elsewhere; any other key is
  left as it is.
\<close>

type_synonym Header = "string \<rightharpoonup> string list"

definition byte :: "char \<Rightarrow> nat" where
  "byte c = of_char c"

definition isLowerByte :: "char \<Rightarrow> bool" where
  "isLowerByte c = (97 \<le> byte c \<and> byte c \<le> 122)"

definition isUpperByte :: "char \<Rightarrow> bool" where
  "isUpperByte c = (65 \<le> byte c \<and> byte c \<le> 90)"

definition isDigitByte :: "char \<Rightarrow> bool" where
  "isDigitByte c = (48 \<le> byte c \<and> byte c \<le> 57)"

definition validHeaderFieldByte :: "char \<Rightarrow> bool" where
  "validHeaderFieldByte c =
     (isLowerByte c \<or> isUpperByte c \<or> isDigitByte c \<or>
      byte c \<in> set [33, 35, 36, 37, 38, 39, 42, 43, 45, 46, 94, 95, 96, 124, 126])"

fun canonicalLoop :: "bool \<Rightarrow> string \<Rightarrow> string" where
  "canonicalLoop upper [] = []"
| "canonicalLoop upper (c # cs) =
     (let c1 = (if upper \<and> isLowerByte c then char_of (byte c - 32)
                else if \<not> upper \<and> isUpperByte c then char_of (byte c + 32)
                else c)
      in c1 # canonicalLoop (c1 = CHR ''-'') cs)"

definition CanonicalMIMEHeaderKey :: "string \<Rightarrow> string" where
  "CanonicalMIMEHeaderKey s = (if list_all validHeaderFieldByte s then canonicalLoop True s else s)"

definition Header_Get :: "Header \<Rightarrow> string \<Rightarrow> string" where
  "Header_Get h key =
     (case h (CanonicalMIMEHeaderKey key) of
        None \<Rightarrow> []
      | Some [] \<Rightarrow> []
      | Some (v # _) \<Rightarrow> v)"

definition Header_Set :: "Header \<Rightarrow> string \<Rightarrow> string \<Rightarrow> Header" where
  "Header_Set h key v = h(CanonicalMIMEHeaderKey key \<mapsto> [v])"

definition Header_Del :: "Header \<Rightarrow> string \<Rightarrow> Header" where
  "Header_Del h key = h(CanonicalMIMEHeaderKey key := None)"

text \<open>
  The response writer \<open>c.Writer\<close>, as the calls made on it: its header map, the status
  codes passed to \<open>WriteHeader\<close> in call order, and the bytes passed to \<open>Write\<close>.
\<close>

record ResponseWriter =
  RespHeader :: Header
  StatusCodes :: "int list"
  Written :: string

definition WriteHeader :: "ResponseWriter \<Rightarrow> int \<Rightarrow> ResponseWriter" where
  "WriteHeader w code = w\<lparr>StatusCodes := StatusCodes w @ [code]\<rparr>"

definition Write :: "ResponseWriter \<Rightarrow> string \<Rightarrow> ResponseWriter" where
  "Write w b = w\<lparr>Written := Written w @ b\<rparr>"

definition StatusOK :: int where
  "StatusOK = 200"

definition StatusBadRequest :: int where
  "StatusBadRequest = 400"

text \<open>
  \<open>http.Error\<close> of net/http: it deletes Content-Length (from Go 1.23 on), sets the
  two headers, writes the status code and then the message and a newline.
\<close>

definition httpError :: "ResponseWriter \<Rightarrow> string \<Rightarrow> int \<Rightarrow> ResponseWriter" where
  "httpError w msg code =
     (let h1 = Header_Del (RespHeader w) ''Content-Length'';
          h2 = Header_Set h1 ''Content-Type'' ''text/plain; charset=utf-8'';
          h3 = Header_Set h2 ''X-Content-Type-Options'' ''nosniff''
      in Write (WriteHeader (w\<lparr>RespHeader := h3\<rparr>) code) (msg @ [CHR 0x0A]))"

text \<open>
  The request body \<open>c.Request.Body\<close>: the bytes the stream delivers, and the error its
  \<open>Read\<close> ends with when that is not the regular end of the stream.
\<close>

record body =
  bytes :: string
  readErr :: "error option"

text \<open>
  What the closure reads and writes of \<open>*gin.Context\<close>: \<open>c.Params\<close>, the parsed query
  \<open>c.Request.URL.Query()\<close>, \<open>c.Request.Header\<close>, \<open>c.Request.Body\<close> and \<open>c.Writer\<close>.
\<close>

record Context =
  Params :: "(string \<times> string) list"
  Query :: "string \<rightharpoonup> string list"
  Header :: Header
  Body :: body
  Writer :: ResponseWriter

text \<open>\<open>contrib.Output\<close>, the message handed to the handler.\<close>

record Output =
  Method :: string
  PathParams :: "string \<rightharpoonup> string"
  QueryParams :: "string \<rightharpoonup> string"
  Headers :: "string \<rightharpoonup> string"
  Content :: val

text \<open>
  \<open>contrib.Reply\<close> as far as the closure reads it; \<open>ReplyHeaders\<close> is its field
  \<open>Headers\<close>, a \<open>map[string]string\<close>, as the list of its entries in the order the
  \<open>range\<close> loop visits them.
\<close>

record Reply =
  Code :: int
  Data :: val
  ReplyHeaders :: "(string \<times> string) list"

text \<open>
  The collaborators outside this repository, as functions:
  \<^item> \<open>ParseQuery\<close>: \<open>url.ParseQuery\<close>; every key of its result has at least one value,
    given here as the first value and the others;
  \<^item> \<open>readValue\<close>: \<open>json.Decoder.Decode\<close> on a stream whose next byte is not white
    space, given the bytes of the stream and the error its \<open>Read\<close> ends with: the next
    JSON value and the bytes after it, which stay unread, or the error;
  \<^item> \<open>Unmarshal\<close>: \<open>json.Unmarshal\<close> into an \<open>interface{}\<close>;
  \<^item> \<open>Marshal\<close>: the JSON text \<open>json.Encoder.Encode\<close> produces for a value, before
    the newline it appends;
  \<^item> \<open>Handle\<close>: \<open>handler.Handle(context.Background(), out)\<close>;
  \<^item> \<open>FromMap\<close>: \<open>reply.FromMap(results)\<close> on a fresh \<open>contrib.Reply\<close>.
\<close>

datatype decoded = Decoded val string | DecodeFailed error

record env =
  ParseQuery :: "string \<Rightarrow> error + (string \<times> string \<times> string list) list"
  readValue :: "string \<Rightarrow> error option \<Rightarrow> decoded"
  Unmarshal :: "string \<Rightarrow> error + val"
  Marshal :: "val \<Rightarrow> error + string"
  Handle :: "Output \<Rightarrow> error + (string \<times> val) list"
  FromMap :: "(string \<times> val) list \<Rightarrow> error + Reply"

text \<open>
  \<open>json.NewDecoder(body).Decode(&content)\<close>: the decoder skips JSON white space; when
  the stream ends before any other byte, it returns the error the stream ended with,
  \<open>io.EOF\<close> for a regular end; otherwise it reads one value.
\<close>

definition isSpace :: "char \<Rightarrow> bool" where
  "isSpace c = (byte c = 32 \<or> byte c = 9 \<or> byte c = 13 \<or> byte c = 10)"

definition Decode :: "env \<Rightarrow> body \<Rightarrow> decoded" where
  "Decode E b =
     (case dropWhile isSpace (bytes b) of
        [] \<Rightarrow> DecodeFailed (case readErr b of None \<Rightarrow> EOF | Some e \<Rightarrow> e)
      | c # cs \<Rightarrow> readValue E (c # cs) (readErr b))"

section \<open>The handler adapter (newGinHandler)\<close>

text \<open>The message before its content is decoded (lines 107 to 125 of the closure).\<close>

definition newOutput :: "string \<Rightarrow> Context \<Rightarrow> Output" where
  "newOutput method c =
     \<lparr>Method = method,
      PathParams = fold (\<lambda>param m. m(fst param \<mapsto> snd param)) (Params c) Map.empty,
      QueryParams = (\<lambda>key. map_option (\<lambda>v. Join v '','') (Query c key)),
      Headers = (\<lambda>key. map_option (\<lambda>v. Join v '','') (Header c key)),
      Content = VNil\<rparr>"

text \<open>
  The switch on the content type (lines 127 to 178): it ends the request with
  \<open>http.Error\<close> (\<open>Rejected\<close>, the writer after it), goes on to the handler with the
  content it decoded, or, in the default case, stores the content and returns.
\<close>

datatype decoding = Rejected ResponseWriter | Proceed val | Returned val

definition readContent :: "env \<Rightarrow> Context \<Rightarrow> decoding" where
  "readContent E c =
     (let contentType = Header_Get (Header c) ''Content-Type'' in
      if contentType = ''application/x-www-form-urlencoded'' then
        (case readErr (Body c) of
           Some err \<Rightarrow> Rejected (httpError (Writer c) (Error err) StatusBadRequest)
         | None \<Rightarrow>
             (case ParseQuery E (bytes (Body c)) of
                Inl err \<Rightarrow> Rejected (httpError (Writer c) (Error err) StatusBadRequest)
              | Inr m \<Rightarrow> Proceed (VMap (map (\<lambda>(key, v0, vs). (key, VStr v0)) m))))
      else if contentType = ''application/json'' then
        (case Decode E (Body c) of
           DecodeFailed err \<Rightarrow>
             (if err = EOF then Proceed VNil
              else Rejected (httpError (Writer c) (Error err) StatusBadRequest))
         | Decoded v rest \<Rightarrow> Proceed v)
      else
        (case readErr (Body c) of
           Some err \<Rightarrow> Rejected (httpError (Writer c) (Error err) StatusBadRequest)
         | None \<Rightarrow> Returned (VStr (bytes (Body c)))))"

text \<open>
  The reply onto the context (lines 199 to 250): the reply headers, the default status
  code, and the three shapes of the data.
\<close>

definition setContentType :: "ResponseWriter \<Rightarrow> string \<Rightarrow> ResponseWriter" where
  "setContentType w v = w\<lparr>RespHeader := Header_Set (RespHeader w) ''Content-Type'' v\<rparr>"

definition writeReply :: "env \<Rightarrow> Reply \<Rightarrow> Context \<Rightarrow> Context" where
  "writeReply E reply c =
     (let c1 = (if length (ReplyHeaders reply) > 0
                then c\<lparr>Header := fold (\<lambda>kv h. Header_Set h (fst kv) (snd kv))
                                    (ReplyHeaders reply) (Header c)\<rparr>
                else c);
          code = (if Code reply = 0 then StatusOK else Code reply);
          w = Writer c1
      in case Data reply of
           VNil \<Rightarrow> c1\<lparr>Writer := WriteHeader w code\<rparr>
         | VStr t \<Rightarrow>
             (let w1 = (case Unmarshal E t of
                          Inl err \<Rightarrow> setContentType w ''text/plain; charset=UTF-8''
                        | Inr v \<Rightarrow> setContentType w ''application/json; charset=UTF-8'')
              in c1\<lparr>Writer := Write (WriteHeader w1 code) t\<rparr>)
         | d \<Rightarrow>
             (let w1 = WriteHeader (setContentType w ''application/json; charset=UTF-8'') code
              in case Marshal E d of
                   Inl err \<Rightarrow> c1\<lparr>Writer := w1\<rparr>
                 | Inr js \<Rightarrow> c1\<lparr>Writer := Write w1 (js @ [CHR 0x0A])\<rparr>))"

text \<open>
  One request through the closure \<open>newGinHandler(rt, method, handler)\<close>: the context as
  the closure leaves it, the messages the handler was invoked with, and \<open>out\<close> as it is
  when the closure returns.
\<close>

record Result =
  Ctx :: Context
  Invoked :: "Output list"
  Out :: Output

definition newGinHandler :: "env \<Rightarrow> string \<Rightarrow> Context \<Rightarrow> Result" where
  "newGinHandler E method c =
     (let out = newOutput method c in
      case readContent E c of
        Rejected w \<Rightarrow> \<lparr>Ctx = c\<lparr>Writer := w\<rparr>, Invoked = [], Out = out\<rparr>
      | Returned content \<Rightarrow> \<lparr>Ctx = c, Invoked = [], Out = out\<lparr>Content := content\<rparr>\<rparr>
      | Proceed content \<Rightarrow>
          (let out1 = out\<lparr>Content := content\<rparr> in
           case Handle E out1 of
             Inl err \<Rightarrow>
               \<lparr>Ctx = c\<lparr>Writer := httpError (Writer c) (Error err) StatusBadRequest\<rparr>,
                Invoked = [out1], Out = out1\<rparr>
           | Inr results \<Rightarrow>
               (case FromMap E results of
                  Inl err \<Rightarrow>
                    \<lparr>Ctx = c\<lparr>Writer := httpError (Writer c) (Error err) StatusBadRequest\<rparr>,
                     Invoked = [out1], Out = out1\<rparr>
                | Inr reply \<Rightarrow> \<lparr>Ctx = writeReply E reply c, Invoked = [out1], Out = out1\<rparr>)))"

section \<open>A reader for JSON texts, after Go's encoding/json\<close>

text \<open>
  The properties of the handler adapter below hold for every \<open>env\<close>. For examples with
  concrete bodies this section gives one: a reader that follows the scanner of
  encoding/json byte by byte (its states, the frames of open arrays and objects, the
  texts of its syntax errors) and builds the value it reads. Numbers are kept as their
  text, so the range check of the conversion to \<open>float64\<close> is not part of it.

  The text of a syntax error names the offending byte as \<open>quoteChar\<close> prints it.
\<close>

definition hexDigit :: "nat \<Rightarrow> char" where
  "hexDigit n = (if n < 10 then char_of (48 + n) else char_of (87 + n))"

definition hex2 :: "nat \<Rightarrow> string" where
  "hex2 n = [hexDigit (n div 16 mod 16), hexDigit (n mod 16)]"

definition encodeRune :: "nat \<Rightarrow> string" where
  "encodeRune r =
     (if r < 128 then [char_of r]
      else if r < 2048 then [char_of (192 + r div 64), char_of (128 + r mod 64)]
      else if r < 65536 then
        [char_of (224 + r div 4096), char_of (128 + r div 64 mod 64), char_of (128 + r mod 64)]
      else
        [char_of (240 + r div 262144), char_of (128 + r div 4096 mod 64),
         char_of (128 + r div 64 mod 64), char_of (128 + r mod 64)])"

definition quoted :: "nat \<Rightarrow> string" where
  "quoted n =
     (if n = 92 then [CHR 0x5C, CHR 0x5C]
      else if 32 \<le> n \<and> n < 127 then [char_of n]
      else if 161 \<le> n \<and> n \<noteq> 173 then encodeRune n
      else if n = 7 then [CHR 0x5C, CHR ''a'']
      else if n = 8 then [CHR 0x5C, CHR ''b'']
      else if n = 12 then [CHR 0x5C, CHR ''f'']
      else if n = 10 then [CHR 0x5C, CHR ''n'']
      else if n = 13 then [CHR 0x5C, CHR ''r'']
      else if n = 9 then [CHR 0x5C, CHR ''t'']
      else if n = 11 then [CHR 0x5C, CHR ''v'']
      else if n < 32 \<or> n = 127 then [CHR 0x5C, CHR ''x''] @ hex2 n
      else [CHR 0x5C, CHR ''u'', CHR ''0'', CHR ''0''] @ hex2 n)"

definition quoteChar :: "char \<Rightarrow> string" where
  "quoteChar c =
     (if byte c = 39 then [CHR 0x27, CHR 0x5C, CHR 0x27, CHR 0x27]
      else if byte c = 34 then [CHR 0x27, CHR 0x22, CHR 0x27]
      else [CHR 0x27] @ quoted (byte c) @ [CHR 0x27])"

definition syntaxError :: "char \<Rightarrow> string \<Rightarrow> string" where
  "syntaxError c context = ''invalid character '' @ quoteChar c @ '' '' @ context"

text \<open>
  String literals: \<open>unquote\<close> decodes the contents of a literal the scanner has
  accepted. An escape \<open>\u\<close> gives the UTF-8 encoding of its code point, a surrogate
  pair one code point, a surrogate without its partner U+FFFD; bytes that are not
  valid UTF-8 are replaced by U+FFFD one by one. The first argument counts bytes
  still to skip.
\<close>

definition hexVal :: "char \<Rightarrow> nat option" where
  "hexVal c =
     (if isDigitByte c then Some (byte c - 48)
      else if 97 \<le> byte c \<and> byte c \<le> 102 then Some (byte c - 87)
      else if 65 \<le> byte c \<and> byte c \<le> 70 then Some (byte c - 55)
      else None)"

definition getu4 :: "string \<Rightarrow> nat option" where
  "getu4 s =
     (case s of
        b # u # h1 # h2 # h3 # h4 # r \<Rightarrow>
          (if b = CHR 0x5C \<and> u = CHR ''u'' then
             (case (hexVal h1, hexVal h2, hexVal h3, hexVal h4) of
                (Some a, Some b, Some c, Some d) \<Rightarrow> Some (((a * 16 + b) * 16 + c) * 16 + d)
              | _ \<Rightarrow> None)
           else None)
      | _ \<Rightarrow> None)"

definition isCont :: "char \<Rightarrow> bool" where
  "isCont c = (128 \<le> byte c \<and> byte c \<le> 191)"

definition runeLen :: "string \<Rightarrow> nat" where
  "runeLen s =
     (case s of
        [] \<Rightarrow> 0
      | c # r \<Rightarrow>
          (let n = byte c in
           if n < 128 then 1
           else if 194 \<le> n \<and> n \<le> 223 then
             (case r of c1 # _ \<Rightarrow> if isCont c1 then 2 else 0 | _ \<Rightarrow> 0)
           else if 224 \<le> n \<and> n \<le> 239 then
             (case r of
                c1 # c2 # _ \<Rightarrow>
                  if (if n = 224 then 160 else 128) \<le> byte c1
                     \<and> byte c1 \<le> (if n = 237 then 159 else 191) \<and> isCont c2
                  then 3 else 0
              | _ \<Rightarrow> 0)
           else if 240 \<le> n \<and> n \<le> 244 then
             (case r of
                c1 # c2 # c3 # _ \<Rightarrow>
                  if (if n = 240 then 144 else 128) \<le> byte c1
                     \<and> byte c1 \<le> (if n = 244 then 143 else 191) \<and> isCont c2 \<and> isCont c3
                  then 4 else 0
              | _ \<Rightarrow> 0)
           else 0))"

definition unescape :: "char \<Rightarrow> char" where
  "unescape e =
     (if e = CHR ''b'' then CHR 0x08
      else if e = CHR ''f'' then CHR 0x0C
      else if e = CHR ''n'' then CHR 0x0A
      else if e = CHR ''r'' then CHR 0x0D
      else if e = CHR ''t'' then CHR 0x09
      else e)"

fun unquote :: "nat \<Rightarrow> string \<Rightarrow> string" where
  "unquote skip [] = []"
| "unquote (Suc k) (c # cs) = unquote k cs"
| "unquote 0 (c # cs) =
     (if c = CHR 0x5C then
        (case cs of
           [] \<Rightarrow> []
         | e # r \<Rightarrow>
             if e = CHR ''u'' then
               (case getu4 (c # cs) of
                  None \<Rightarrow> []
                | Some rr \<Rightarrow>
                    if 55296 \<le> rr \<and> rr < 57344 then
                      (case getu4 (drop 5 cs) of
                         None \<Rightarrow> encodeRune 65533 @ unquote 5 cs
                       | Some rr1 \<Rightarrow>
                           if rr < 56320 \<and> 56320 \<le> rr1 \<and> rr1 < 57344
                           then encodeRune ((rr - 55296) * 1024 + (rr1 - 56320) + 65536)
                                  @ unquote 11 cs
                           else encodeRune 65533 @ unquote 5 cs)
                    else encodeRune rr @ unquote 5 cs)
             else unescape e # unquote 1 cs)
      else if byte c < 128 then c # unquote 0 cs
      else if runeLen (c # cs) = 0 then encodeRune 65533 @ unquote 0 cs
      else take (runeLen (c # cs)) (c # cs) @ unquote (runeLen (c # cs) - 1) cs)"

text \<open>
  The scanner. A frame is an open object (its members so far and the key that waits for
  its value) or an open array (its elements so far); a repeated key keeps its last value.
\<close>

fun setKey :: "string \<Rightarrow> val \<Rightarrow> (string \<times> val) list \<Rightarrow> (string \<times> val) list" where
  "setKey k v [] = [(k, v)]"
| "setKey k v (e # es) = (if fst e = k then (k, v) # es else e # setKey k v es)"

datatype frame = FObject "(string \<times> val) list" "string option" | FArray "val list"

datatype lex =
    BeginValue
  | BeginValueOrEmpty
  | BeginStringOrEmpty
  | BeginString
  | InString bool string
  | InStringEsc bool string
  | InStringEscU bool string nat
  | EndKey
  | EndValue
  | NumNeg string
  | NumZero string
  | NumInt string
  | NumDot string
  | NumFrac string
  | NumExp string
  | NumExpSign string
  | NumExpDigits string
  | InLiteral string string val

text \<open>
  One byte moves the scanner on, completes the top-level value with this byte
  (\<open>Done\<close>) or just before it (\<open>DoneBefore\<close>, for a number, which only the next byte
  ends), or is a syntax error.
\<close>

datatype scanStep = Continue lex "frame list" | Done val | DoneBefore val | Fail string

definition unreachable :: scanStep where
  "unreachable = Fail ''scanner: state without its frame''"

fun complete :: "val \<Rightarrow> frame list \<Rightarrow> scanStep" where
  "complete v [] = Done v"
| "complete v (FObject ms (Some k) # fs) = Continue EndValue (FObject (setKey k v ms) None # fs)"
| "complete v (FObject ms None # fs) = unreachable"
| "complete v (FArray es # fs) = Continue EndValue (FArray (es @ [v]) # fs)"

definition maxNestingDepth :: nat where
  "maxNestingDepth = 10000"

definition pushParseState :: "frame \<Rightarrow> lex \<Rightarrow> frame list \<Rightarrow> char \<Rightarrow> scanStep" where
  "pushParseState f l fs c =
     (if Suc (length fs) \<le> maxNestingDepth then Continue l (f # fs)
      else Fail (syntaxError c ''exceeded max depth''))"

definition stateBeginValue :: "frame list \<Rightarrow> char \<Rightarrow> scanStep" where
  "stateBeginValue fs c =
     (if isSpace c then Continue BeginValue fs
      else if c = CHR ''{'' then pushParseState (FObject [] None) BeginStringOrEmpty fs c
      else if c = CHR ''['' then pushParseState (FArray []) BeginValueOrEmpty fs c
      else if c = CHR 0x22 then Continue (InString False []) fs
      else if c = CHR ''-'' then Continue (NumNeg [c]) fs
      else if c = CHR ''0'' then Continue (NumZero [c]) fs
      else if c = CHR ''t'' then Continue (InLiteral ''true'' ''rue'' (VBool True)) fs
      else if c = CHR ''f'' then Continue (InLiteral ''false'' ''alse'' (VBool False)) fs
      else if c = CHR ''n'' then Continue (InLiteral ''null'' ''ull'' VNil) fs
      else if isDigitByte c then Continue (NumInt [c]) fs
      else Fail (syntaxError c ''looking for beginning of value''))"

definition stateBeginString :: "frame list \<Rightarrow> char \<Rightarrow> scanStep" where
  "stateBeginString fs c =
     (if isSpace c then Continue BeginString fs
      else if c = CHR 0x22 then Continue (InString True []) fs
      else Fail (syntaxError c ''looking for beginning of object key string''))"

definition stateEndValue :: "frame list \<Rightarrow> char \<Rightarrow> scanStep" where
  "stateEndValue fs c =
     (if isSpace c then Continue EndValue fs
      else case fs of
        FObject ms None # r \<Rightarrow>
          (if c = CHR '','' then Continue BeginString fs
           else if c = CHR ''}'' then complete (VMap ms) r
           else Fail (syntaxError c ''after object key:value pair''))
      | FArray es # r \<Rightarrow>
          (if c = CHR '','' then Continue BeginValue fs
           else if c = CHR '']'' then complete (VArr es) r
           else Fail (syntaxError c ''after array element''))
      | _ \<Rightarrow> unreachable)"

definition endNumber :: "string \<Rightarrow> frame list \<Rightarrow> char \<Rightarrow> scanStep" where
  "endNumber lit fs c =
     (case complete (VNum lit) fs of
        Done v \<Rightarrow> DoneBefore v
      | Continue l fs1 \<Rightarrow> stateEndValue fs1 c
      | other \<Rightarrow> other)"

definition endString :: "bool \<Rightarrow> string \<Rightarrow> frame list \<Rightarrow> scanStep" where
  "endString isKey raw fs =
     (if isKey then
        (case fs of
           FObject ms k # r \<Rightarrow> Continue EndKey (FObject ms (Some (unquote 0 raw)) # r)
         | _ \<Rightarrow> unreachable)
      else complete (VStr (unquote 0 raw)) fs)"

fun step :: "lex \<Rightarrow> frame list \<Rightarrow> char \<Rightarrow> scanStep" where
  "step BeginValue fs c = stateBeginValue fs c"
| "step BeginValueOrEmpty fs c =
     (if isSpace c then Continue BeginValueOrEmpty fs
      else if c = CHR '']'' then
        (case fs of FArray es # r \<Rightarrow> complete (VArr es) r | _ \<Rightarrow> unreachable)
      else stateBeginValue fs c)"
| "step BeginStringOrEmpty fs c =
     (if isSpace c then Continue BeginStringOrEmpty fs
      else if c = CHR ''}'' then
        (case fs of FObject ms k # r \<Rightarrow> complete (VMap ms) r | _ \<Rightarrow> unreachable)
      else stateBeginString fs c)"
| "step BeginString fs c = stateBeginString fs c"
| "step (InString isKey raw) fs c =
     (if c = CHR 0x22 then endString isKey raw fs
      else if c = CHR 0x5C then Continue (InStringEsc isKey (raw @ [c])) fs
      else if byte c < 32 then Fail (syntaxError c ''in string literal'')
      else Continue (InString isKey (raw @ [c])) fs)"
| "step (InStringEsc isKey raw) fs c =
     (if c \<in> set [CHR ''b'', CHR ''f'', CHR ''n'', CHR ''r'', CHR ''t'', CHR 0x5C, CHR ''/'', CHR 0x22]
      then Continue (InString isKey (raw @ [c])) fs
      else if c = CHR ''u'' then Continue (InStringEscU isKey (raw @ [c]) 4) fs
      else Fail (syntaxError c ''in string escape code''))"
| "step (InStringEscU isKey raw n) fs c =
     (if hexVal c = None
      then Fail (syntaxError c ([CHR ''i'', CHR ''n'', CHR '' '', CHR 0x5C]
                                 @ ''u hexadecimal character escape''))
      else if n \<le> 1 then Continue (InString isKey (raw @ [c])) fs
      else Continue (InStringEscU isKey (raw @ [c]) (n - 1)) fs)"
| "step EndKey fs c =
     (if isSpace c then Continue EndKey fs
      else if c = CHR '':'' then Continue BeginValue fs
      else Fail (syntaxError c ''after object key''))"
| "step EndValue fs c = stateEndValue fs c"
| "step (NumNeg lit) fs c =
     (if c = CHR ''0'' then Continue (NumZero (lit @ [c])) fs
      else if isDigitByte c then Continue (NumInt (lit @ [c])) fs
      else Fail (syntaxError c ''in numeric literal''))"
| "step (NumZero lit) fs c =
     (if c = CHR ''.'' then Continue (NumDot (lit @ [c])) fs
      else if c = CHR ''e'' \<or> c = CHR ''E'' then Continue (NumExp (lit @ [c])) fs
      else endNumber lit fs c)"
| "step (NumInt lit) fs c =
     (if isDigitByte c then Continue (NumInt (lit @ [c])) fs
      else if c = CHR ''.'' then Continue (NumDot (lit @ [c])) fs
      else if c = CHR ''e'' \<or> c = CHR ''E'' then Continue (NumExp (lit @ [c])) fs
      else endNumber lit fs c)"
| "step (NumDot lit) fs c =
     (if isDigitByte c then Continue (NumFrac (lit @ [c])) fs
      else Fail (syntaxError c ''after decimal point in numeric literal''))"
| "step (NumFrac lit) fs c =
     (if isDigitByte c then Continue (NumFrac (lit @ [c])) fs
      else if c = CHR ''e'' \<or> c = CHR ''E'' then Continue (NumExp (lit @ [c])) fs
      else endNumber lit fs c)"
| "step (NumExp lit) fs c =
     (if c = CHR ''+'' \<or> c = CHR ''-'' then Continue (NumExpSign (lit @ [c])) fs
      else if isDigitByte c then Continue (NumExpDigits (lit @ [c])) fs
      else Fail (syntaxError c ''in exponent of numeric literal''))"
| "step (NumExpSign lit) fs c =
     (if isDigitByte c then Continue (NumExpDigits (lit @ [c])) fs
      else Fail (syntaxError c ''in exponent of numeric literal''))"
| "step (NumExpDigits lit) fs c =
     (if isDigitByte c then Continue (NumExpDigits (lit @ [c])) fs
      else endNumber lit fs c)"
| "step (InLiteral name rest v) fs c =
     (case rest of
        [] \<Rightarrow> unreachable
      | e # r \<Rightarrow>
          if c = e then (if r = [] then complete v fs else Continue (InLiteral name r v) fs)
          else Fail (syntaxError c (''in literal '' @ name @ '' (expecting '' @ quoteChar e @ '')'')))"

text \<open>
  Scanning stops at the end of the first value: the bytes after it are returned unread.
\<close>

datatype scanned = Value val string | Bad string | Ended lex "frame list"

fun scan :: "lex \<Rightarrow> frame list \<Rightarrow> string \<Rightarrow> scanned" where
  "scan l fs [] = Ended l fs"
| "scan l fs (c # cs) =
     (case step l fs c of
        Continue l1 fs1 \<Rightarrow> scan l1 fs1 cs
      | Done v \<Rightarrow> Value v cs
      | DoneBefore v \<Rightarrow> Value v (c # cs)
      | Fail msg \<Rightarrow> Bad msg)"

fun atEnd :: "lex \<Rightarrow> frame list \<Rightarrow> val option" where
  "atEnd (NumZero lit) [] = Some (VNum lit)"
| "atEnd (NumInt lit) [] = Some (VNum lit)"
| "atEnd (NumFrac lit) [] = Some (VNum lit)"
| "atEnd (NumExpDigits lit) [] = Some (VNum lit)"
| "atEnd l fs = None"

text \<open>
  \<open>Decoder.Decode\<close> from the first byte that is not white space, and
  \<open>json.Unmarshal\<close>, which accepts nothing but white space after the value.
\<close>

definition jsonReadValue :: "string \<Rightarrow> error option \<Rightarrow> decoded" where
  "jsonReadValue txt rdErr =
     (case scan BeginValue [] txt of
        Value v rest \<Rightarrow> Decoded v rest
      | Bad msg \<Rightarrow> DecodeFailed (Err msg)
      | Ended l fs \<Rightarrow>
          (case rdErr of
             Some e \<Rightarrow> DecodeFailed e
           | None \<Rightarrow>
               (case atEnd l fs of
                  Some v \<Rightarrow> Decoded v []
                | None \<Rightarrow> DecodeFailed (Err ''unexpected EOF''))))"

definition jsonUnmarshal :: "string \<Rightarrow> error + val" where
  "jsonUnmarshal t =
     (case scan BeginValue [] t of
        Value v rest \<Rightarrow>
          (case dropWhile isSpace rest of
             [] \<Rightarrow> Inr v
           | c # _ \<Rightarrow> Inl (Err (syntaxError c ''after top-level value'')))
      | Bad msg \<Rightarrow> Inl (Err msg)
      | Ended l fs \<Rightarrow>
          (case atEnd l fs of
             Some v \<Rightarrow> Inr v
           | None \<Rightarrow> Inl (Err ''unexpected end of JSON input'')))"

text \<open>
  The example environment: JSON is read by the reader above, the handler answers any
  message, and \<open>FromMap\<close> yields the given reply. Form decoding and JSON encoding are
  not exercised by the examples and answer with fixed values.
\<close>

definition exampleEnv :: "Reply \<Rightarrow> env" where
  "exampleEnv reply =
     \<lparr>ParseQuery = (\<lambda>s. Inr []),
      readValue = jsonReadValue,
      Unmarshal = jsonUnmarshal,
      Marshal = (\<lambda>v. Inl (Err ''json: unsupported value'')),
      Handle = (\<lambda>out. Inr []),
      FromMap = (\<lambda>results. Inr reply)\<rparr>"

text \<open>Example requests: a fresh response writer, one header, a body.\<close>

definition emptyWriter :: ResponseWriter where
  "emptyWriter = \<lparr>RespHeader = Map.empty, StatusCodes = [], Written = []\<rparr>"

definition request :: "string \<Rightarrow> string \<Rightarrow> Context" where
  "request contentType b =
     \<lparr>Params = [], Query = Map.empty,
      Header = [''Content-Type'' \<mapsto> [contentType]],
      Body = \<lparr>bytes = b, readErr = None\<rparr>,
      Writer = emptyWriter\<rparr>"

definition okReply :: Reply where
  "okReply = \<lparr>Code = 0, Data = VNil, ReplyHeaders = []\<rparr>"

definition createdReply :: Reply where
  "createdReply = \<lparr>Code = 201, Data = VStr ''created'',
     ReplyHeaders = [(''x-request-id'', ''42'')]\<rparr>"

definition jsonTextReply :: Reply where
  "jsonTextReply = \<lparr>Code = 202, Data = VStr ''{ \"a\" : 1 }'', ReplyHeaders = []\<rparr>"

definition plainTextReply :: Reply where
  "plainTextReply = \<lparr>Code = 0, Data = VStr ''hello'', ReplyHeaders = []\<rparr>"

text \<open>A request without a Content-Type header, and one whose body fails while it is read.\<close>

definition untypedRequest :: "string \<Rightarrow> Context" where
  "untypedRequest b = (request [] b)\<lparr>Header := Map.empty\<rparr>"

definition brokenRequest :: "string \<Rightarrow> string \<Rightarrow> Context" where
  "brokenRequest contentType b =
     (request contentType b)\<lparr>Body := \<lparr>bytes = b, readErr = Some (Err ''unexpected EOF'')\<rparr>\<rparr>"

section \<open>The options of the package and example handles\<close>

text \<open>
  The fields of \<open>Server\<close> are unexported, so the options that reach them are the ones
  the package itself builds: \<open>TLS\<close> and \<open>Timeouts\<close>.
\<close>

inductive packageOption :: "Option \<Rightarrow> bool" where
  "packageOption (TLS cf kf)"
| "packageOption (Timeouts r w)"

text \<open>A handle that is up, and the same handle before its start.\<close>

definition idleServer :: Server where
  "idleServer = \<lparr>running = False, Addr = '':9090'',
     ReadTimeout = httpDefaultReadTimeout, WriteTimeout = httpDefaultWriteTimeout,
     tlsEnabled = False, certFile = [], keyFile = []\<rparr>"

definition upServer :: Server where
  "upServer = idleServer\<lparr>running := True\<rparr>"


section \<open>Properties of the server handle\<close>

lemma TLS_running [simp]: "running (TLS cf kf s) = running s"
  by (simp add: TLS_def Let_def)

lemma Timeouts_running [simp]: "running (Timeouts r w s) = running s"
  by (simp add: Timeouts_def)

lemma TLS_Addr: "Addr s \<noteq> [] \<Longrightarrow> Addr (TLS cf kf s) = Addr s"
  by (simp add: TLS_def Let_def)

lemma Timeouts_Addr [simp]: "Addr (Timeouts r w s) = Addr s"
  by (simp add: Timeouts_def)

lemma packageOption_running: "packageOption opt \<Longrightarrow> running (opt s) = running s"
  by (induction rule: packageOption.induct) simp_all

lemma packageOption_Addr: "packageOption opt \<Longrightarrow> Addr s \<noteq> [] \<Longrightarrow> Addr (opt s) = Addr s"
  by (induction rule: packageOption.induct) (simp_all add: TLS_Addr)

lemma fold_options_running:
  "list_all packageOption opts \<Longrightarrow> running (fold (\<lambda>opt s. opt s) opts s) = running s"
  by (induction opts arbitrary: s) (simp_all add: packageOption_running)

lemma fold_options_Addr:
  "list_all packageOption opts \<Longrightarrow> Addr s \<noteq> [] \<Longrightarrow> Addr (fold (\<lambda>opt s. opt s) opts s) = Addr s"
  by (induction opts arbitrary: s) (simp_all add: packageOption_Addr)

lemma NewServer_not_running:
  assumes "list_all packageOption opts" and "NewServer load addr opts = Inr s"
  shows "\<not> running s"
  using assms
  by (auto simp: NewServer_def Let_def fold_options_running split: option.splits)

text \<open>
  Whatever the options of the package, the address of a new handle is the one given, or
  \<open>:8080\<close> when none is given: the default of \<open>TLS\<close> never applies, because
  \<open>NewServer\<close> has filled the address in before it runs the options.
\<close>

lemma NewServer_Addr:
  assumes "list_all packageOption opts" and "NewServer load addr opts = Inr s"
  shows "Addr s = (if addr = [] then httpDefaultAddr else addr)"
  using assms
  by (auto simp: NewServer_def Let_def fold_options_Addr httpDefaultAddr_def
           split: option.splits)

text \<open>
  C3, on the code: with no address and the \<open>TLS\<close> option (and a key pair that loads),
  \<open>NewServer\<close> yields a handle whose address is \<open>:8080\<close>, not the TLS default
  \<open>:8443\<close>.
\<close>

theorem C3_NewServer_TLS_default_addr:
  "NewServer (\<lambda>cf kf. None) [] [TLS ''cert.pem'' ''key.pem''] =
     Inr \<lparr>running = False, Addr = '':8080'',
          ReadTimeout = 60000000000, WriteTimeout = 60000000000,
          tlsEnabled = True, certFile = ''cert.pem'', keyFile = ''key.pem''\<rparr>"
  by (simp add: NewServer_def TLS_def validateInit_def Let_def httpDefaultAddr_def
        httpDefaultReadTimeout_def httpDefaultWriteTimeout_def Second_def)

text \<open>
  C8: \<open>Start\<close> on a handle that is running, and \<open>Stop\<close> on a handle that is not
  running, return \<open>nil\<close>, leave the handle as it is and have no effect: no probe of the
  port, no accept loop, no call of \<open>Shutdown\<close>. A handle that \<open>NewServer\<close> has just
  built is not running, so \<open>Stop\<close> before any \<open>Start\<close> is such a call.
\<close>

theorem C8_Start_Stop_noops:
  "(running s \<longrightarrow> Start Listen s = Returns (None, s, [])) \<and>
   (\<not> running s \<longrightarrow> Stop Shutdown s = (None, s, [])) \<and>
   (list_all packageOption opts \<and> NewServer load addr opts = Inr s0
      \<longrightarrow> Stop Shutdown s0 = (None, s0, []))"
proof -
  have "Stop Shutdown s0 = (None, s0, [])"
    if "list_all packageOption opts" and "NewServer load addr opts = Inr s0"
    using NewServer_not_running [OF that] by (simp add: Stop_def)
  then show ?thesis
    by (simp add: Start_def Stop_def)
qed

theorem C8_Start_Stop_noops_witness:
  "running upServer \<and> Start (\<lambda>a. Some (Err ''address already in use'')) upServer
       = Returns (None, upServer, []) \<and>
   \<not> running idleServer \<and> Stop (\<lambda>d. Some DeadlineExceeded) idleServer
       = (None, idleServer, []) \<and>
   list_all packageOption [TLS ''cert.pem'' ''key.pem''] \<and>
   (\<exists>s0. NewServer (\<lambda>cf kf. None) [] [TLS ''cert.pem'' ''key.pem''] = Inr s0 \<and>
         Stop (\<lambda>d. Some DeadlineExceeded) s0 = (None, s0, []))"
proof -
  have up: "running upServer" and idle: "\<not> running idleServer"
    by (simp_all add: upServer_def idleServer_def)
  have opts: "list_all packageOption [TLS ''cert.pem'' ''key.pem'']"
    by (simp add: packageOption.intros)
  obtain s0 where new: "NewServer (\<lambda>cf kf. None) [] [TLS ''cert.pem'' ''key.pem''] = Inr s0"
    by (simp add: NewServer_def TLS_def validateInit_def Let_def httpDefaultAddr_def)
  note inst1 = C8_Start_Stop_noops [of upServer "\<lambda>a. Some (Err ''address already in use'')"
      "\<lambda>d. Some DeadlineExceeded" "[TLS ''cert.pem'' ''key.pem'']" "\<lambda>cf kf. None" "[]" s0]
  note inst2 = C8_Start_Stop_noops [of idleServer "\<lambda>a. None"
      "\<lambda>d. Some DeadlineExceeded" "[]" "\<lambda>cf kf. None" "[]" s0]
  from inst1 up opts new inst2 idle show ?thesis
    by blast
qed






section \<open>Properties of the handler adapter\<close>

lemma canonical_Content_Type: "CanonicalMIMEHeaderKey ''Content-Type'' = ''Content-Type''"
  by code_simp

lemma Decode_spaces:
  assumes "list_all isSpace (bytes b)" and "readErr b = None"
  shows "Decode E b = DecodeFailed EOF"
proof -
  from assms(1) have nil: "dropWhile isSpace (bytes b) = []"
    by (simp add: dropWhile_eq_Nil_conv list_all_iff)
  show ?thesis
    unfolding Decode_def nil using assms(2) by simp
qed

lemma newOutput_Content: "Content (newOutput method c) = VNil"
  by (simp add: newOutput_def)

lemma newOutput_update_VNil: "(newOutput method c)\<lparr>Content := VNil\<rparr> = newOutput method c"
  by (simp add: newOutput_def)

lemma newGinHandler_Rejected:
  "readContent E c = Rejected w \<Longrightarrow>
   newGinHandler E method c = \<lparr>Ctx = c\<lparr>Writer := w\<rparr>, Invoked = [], Out = newOutput method c\<rparr>"
  by (simp add: newGinHandler_def)

lemma newGinHandler_Returned:
  "readContent E c = Returned v \<Longrightarrow>
   newGinHandler E method c
     = \<lparr>Ctx = c, Invoked = [], Out = (newOutput method c)\<lparr>Content := v\<rparr>\<rparr>"
  by (simp add: newGinHandler_def)

lemma newGinHandler_Proceed:
  "readContent E c = Proceed v \<Longrightarrow>
   Invoked (newGinHandler E method c) = [(newOutput method c)\<lparr>Content := v\<rparr>] \<and>
   Out (newGinHandler E method c) = (newOutput method c)\<lparr>Content := v\<rparr>"
  by (simp add: newGinHandler_def Let_def split: sum.splits)

lemma newGinHandler_reply:
  "readContent E c = Proceed v \<Longrightarrow>
   Handle E ((newOutput method c)\<lparr>Content := v\<rparr>) = Inr results \<Longrightarrow>
   FromMap E results = Inr reply \<Longrightarrow>
   Ctx (newGinHandler E method c) = writeReply E reply c"
  by (simp add: newGinHandler_def Let_def)

lemma httpError_StatusCodes: "StatusCodes (httpError w msg code) = StatusCodes w @ [code]"
  by (simp add: httpError_def Let_def Write_def WriteHeader_def)

lemma httpError_Written: "Written (httpError w msg code) = Written w @ msg @ [CHR 0x0A]"
  by (simp add: httpError_def Let_def Write_def WriteHeader_def)

lemma request_Content_Type: "Header_Get (Header (request ct b)) ''Content-Type'' = ct"
  by (simp add: request_def Header_Get_def canonical_Content_Type)

lemma example_empty_json_request:
  "Ctx (newGinHandler (exampleEnv reply) m (request ''application/json'' []))
     = writeReply (exampleEnv reply) reply (request ''application/json'' [])"
proof -
  let ?c = "request ''application/json'' []"
  have "Decode (exampleEnv reply) (Body ?c) = DecodeFailed EOF"
    by (simp add: Decode_def request_def)
  then have p: "readContent (exampleEnv reply) ?c = Proceed VNil"
    by (simp add: readContent_def request_Content_Type)
  show ?thesis
    by (rule newGinHandler_reply [OF p]) (simp_all add: exampleEnv_def)
qed



lemma Decode_exampleEnv:
  "dropWhile isSpace (bytes b) \<noteq> [] \<Longrightarrow>
   Decode (exampleEnv reply) b = jsonReadValue (dropWhile isSpace (bytes b)) (readErr b)"
  by (cases "dropWhile isSpace (bytes b)") (simp_all add: Decode_def exampleEnv_def)


lemma jsonReadValue_not_EOF: "jsonReadValue txt None \<noteq> DecodeFailed EOF"
  by (simp add: jsonReadValue_def split: scanned.splits option.splits)

lemma Decode_exampleEnv_not_EOF:
  assumes "dropWhile isSpace (bytes b) \<noteq> []" and "readErr b = None"
  shows "Decode (exampleEnv reply) b \<noteq> DecodeFailed EOF"
  using assms by (simp add: Decode_exampleEnv jsonReadValue_not_EOF)

text \<open>
  C7: a request declared \<open>application/json\<close> whose body has no bytes decodes to
  \<open>io.EOF\<close>, which the closure takes for success: the content stays \<open>nil\<close>, nothing
  is written for the decoding, and the handler is invoked, once, with that message; if
  the handler and \<open>FromMap\<close> succeed, the response is the handler's reply.
\<close>

theorem C7_empty_json_body:
  assumes "Header_Get (Header c) ''Content-Type'' = ''application/json''"
    and "bytes (Body c) = []" and "readErr (Body c) = None"
  shows "Decode E (Body c) = DecodeFailed EOF \<and>
         readContent E c = Proceed VNil \<and>
         Invoked (newGinHandler E method c) = [newOutput method c] \<and>
         Content (Out (newGinHandler E method c)) = VNil \<and>
         (\<forall>results reply.
            Handle E (newOutput method c) = Inr results \<and> FromMap E results = Inr reply
            \<longrightarrow> Ctx (newGinHandler E method c) = writeReply E reply c)"
proof -
  have d: "Decode E (Body c) = DecodeFailed EOF"
    using assms(2,3) by (simp add: Decode_def)
  have r: "readContent E c = Proceed VNil"
    using assms(1) d by (simp add: readContent_def)
  show ?thesis
    using d r newGinHandler_Proceed [OF r, of "method"] newGinHandler_reply [OF r, of "method"]
    by (simp add: newOutput_update_VNil newOutput_Content)
qed

theorem C7_empty_json_body_witness:
  "Header_Get (Header (request ''application/json'' [])) ''Content-Type'' = ''application/json'' \<and>
   bytes (Body (request ''application/json'' [])) = [] \<and>
   readErr (Body (request ''application/json'' [])) = None \<and>
   Invoked (newGinHandler (exampleEnv okReply) ''POST'' (request ''application/json'' []))
     = [newOutput ''POST'' (request ''application/json'' [])] \<and>
   Content (Out (newGinHandler (exampleEnv okReply) ''POST'' (request ''application/json'' []))) = VNil \<and>
   StatusCodes (Writer (Ctx (newGinHandler (exampleEnv okReply) ''POST''
     (request ''application/json'' [])))) = [200] \<and>
   Written (Writer (Ctx (newGinHandler (exampleEnv okReply) ''POST''
     (request ''application/json'' [])))) = []"
proof -
  let ?c = "request ''application/json'' []"
  have h: "Header_Get (Header ?c) ''Content-Type'' = ''application/json''"
    by (simp add: request_def Header_Get_def canonical_Content_Type)
  have b: "bytes (Body ?c) = []" "readErr (Body ?c) = None"
    by (simp_all add: request_def)
  have w: "Writer (writeReply (exampleEnv okReply) okReply ?c)
      = \<lparr>RespHeader = Map.empty, StatusCodes = [200], Written = []\<rparr>"
    by (simp add: writeReply_def okReply_def request_def emptyWriter_def WriteHeader_def StatusOK_def)
  from C7_empty_json_body [OF h b, of "exampleEnv okReply" "''POST''"] h b w
  show ?thesis
    by (simp add: exampleEnv_def)
qed




text \<open>
  C6, as the code has it: when the decoding of a request declared
  \<open>application/json\<close> fails with an error other than \<open>io.EOF\<close>, the closure answers
  with status 400 and the error's text followed by a newline, and the handler is not
  invoked. A body of white space only (read without error) is handled like the empty
  body: the handler is invoked. With the reader of the examples as the decoder, every
  body that holds a byte other than white space and fails to decode is rejected so.
\<close>

theorem C6_malformed_json_rejected:
  assumes "Header_Get (Header c) ''Content-Type'' = ''application/json''"
  shows "(Decode E (Body c) = DecodeFailed err \<and> err \<noteq> EOF \<longrightarrow>
            Ctx (newGinHandler E method c)
              = c\<lparr>Writer := httpError (Writer c) (Error err) StatusBadRequest\<rparr> \<and>
            StatusCodes (Writer (Ctx (newGinHandler E method c)))
              = StatusCodes (Writer c) @ [400] \<and>
            Written (Writer (Ctx (newGinHandler E method c)))
              = Written (Writer c) @ Error err @ [CHR 0x0A] \<and>
            Invoked (newGinHandler E method c) = []) \<and>
         (list_all isSpace (bytes (Body c)) \<and> readErr (Body c) = None \<longrightarrow>
            Invoked (newGinHandler E method c) = [newOutput method c]) \<and>
         (dropWhile isSpace (bytes (Body c)) \<noteq> [] \<and> readErr (Body c) = None \<and>
          Decode (exampleEnv r) (Body c) = DecodeFailed err1 \<longrightarrow>
            err1 \<noteq> EOF \<and>
            StatusCodes (Writer (Ctx (newGinHandler (exampleEnv r) method c)))
              = StatusCodes (Writer c) @ [400] \<and>
            Written (Writer (Ctx (newGinHandler (exampleEnv r) method c)))
              = Written (Writer c) @ Error err1 @ [CHR 0x0A] \<and>
            Invoked (newGinHandler (exampleEnv r) method c) = [])"
proof -
  have rejected: "Ctx (newGinHandler E1 method c)
        = c\<lparr>Writer := httpError (Writer c) (Error e) StatusBadRequest\<rparr> \<and>
      StatusCodes (Writer (Ctx (newGinHandler E1 method c))) = StatusCodes (Writer c) @ [400] \<and>
      Written (Writer (Ctx (newGinHandler E1 method c)))
        = Written (Writer c) @ Error e @ [CHR 0x0A] \<and>
      Invoked (newGinHandler E1 method c) = []"
    if "Decode E1 (Body c) = DecodeFailed e" and "e \<noteq> EOF" for E1 e
  proof -
    have p: "readContent E1 c = Rejected (httpError (Writer c) (Error e) StatusBadRequest)"
      using assms that by (simp add: readContent_def)
    show ?thesis
      by (simp add: newGinHandler_Rejected [OF p] httpError_StatusCodes httpError_Written
            StatusBadRequest_def)
  qed
  have spaces: "Invoked (newGinHandler E method c) = [newOutput method c]"
    if "list_all isSpace (bytes (Body c))" and "readErr (Body c) = None"
  proof -
    have "Decode E (Body c) = DecodeFailed EOF"
      using that by (rule Decode_spaces)
    with assms have p: "readContent E c = Proceed VNil"
      by (simp add: readContent_def)
    show ?thesis
      using newGinHandler_Proceed [OF p, of "method"] by (simp add: newOutput_update_VNil)
  qed
  have reader: "err1 \<noteq> EOF"
    if "dropWhile isSpace (bytes (Body c)) \<noteq> []" and "readErr (Body c) = None"
      and "Decode (exampleEnv r) (Body c) = DecodeFailed err1"
    using Decode_exampleEnv_not_EOF [OF that(1,2), of r] that(3) by auto
  show ?thesis
    using rejected [of E err] rejected [of "exampleEnv r" err1] spaces reader
    by blast
qed

lemma example_malformed:
  "jsonReadValue ''{bad'' None
     = DecodeFailed (Err (''invalid character '' @ [CHR 0x27] @ ''b'' @ [CHR 0x27]
         @ '' looking for beginning of object key string''))"
  by code_simp

theorem C6_malformed_json_rejected_witness:
  "Header_Get (Header (request ''application/json'' ''{bad'')) ''Content-Type''
     = ''application/json'' \<and>
   dropWhile isSpace (bytes (Body (request ''application/json'' ''{bad''))) \<noteq> [] \<and>
   readErr (Body (request ''application/json'' ''{bad'')) = None \<and>
   Decode (exampleEnv okReply) (Body (request ''application/json'' ''{bad''))
     = DecodeFailed (Err (''invalid character '' @ [CHR 0x27] @ ''b'' @ [CHR 0x27]
         @ '' looking for beginning of object key string'')) \<and>
   StatusCodes (Writer (Ctx (newGinHandler (exampleEnv okReply) ''POST''
       (request ''application/json'' ''{bad'')))) = [400] \<and>
   Written (Writer (Ctx (newGinHandler (exampleEnv okReply) ''POST''
       (request ''application/json'' ''{bad''))))
     = ''invalid character '' @ [CHR 0x27] @ ''b'' @ [CHR 0x27]
         @ '' looking for beginning of object key string'' @ [CHR 0x0A] \<and>
   Invoked (newGinHandler (exampleEnv okReply) ''POST''
       (request ''application/json'' ''{bad'')) = [] \<and>
   list_all isSpace (bytes (Body (request ''application/json'' [CHR 0x20, CHR 0x0A]))) \<and>
   Invoked (newGinHandler (exampleEnv okReply) ''POST''
       (request ''application/json'' [CHR 0x20, CHR 0x0A]))
     = [newOutput ''POST'' (request ''application/json'' [CHR 0x20, CHR 0x0A])]"
proof -
  let ?c = "request ''application/json'' ''{bad''"
  let ?s = "request ''application/json'' [CHR 0x20, CHR 0x0A]"
  let ?err = "Err (''invalid character '' @ [CHR 0x27] @ ''b'' @ [CHR 0x27]
         @ '' looking for beginning of object key string'')"
  have h: "Header_Get (Header ?c) ''Content-Type'' = ''application/json''"
    and hs: "Header_Get (Header ?s) ''Content-Type'' = ''application/json''"
    by (simp_all add: request_def Header_Get_def canonical_Content_Type)
  have n: "dropWhile isSpace (bytes (Body ?c)) \<noteq> []" and e: "readErr (Body ?c) = None"
    by (simp_all add: request_def isSpace_def byte_def)
  have d: "Decode (exampleEnv okReply) (Body ?c) = DecodeFailed ?err"
    using example_malformed
    by (simp add: Decode_def request_def exampleEnv_def isSpace_def byte_def)
  have sp: "list_all isSpace (bytes (Body ?s))" and se: "readErr (Body ?s) = None"
    by (simp_all add: request_def isSpace_def byte_def)
  have w: "StatusCodes (Writer ?c) = []" "Written (Writer ?c) = []"
    by (simp_all add: request_def emptyWriter_def)
  note bad = C6_malformed_json_rejected [OF h, where E = "exampleEnv okReply" and err = ?err
      and ?err1.0 = ?err and r = okReply]
  note blank = C6_malformed_json_rejected [OF hs, where E = "exampleEnv okReply" and err = ?err
      and ?err1.0 = ?err and r = okReply]
  from blank sp se
  have i: "Invoked (newGinHandler (exampleEnv okReply) ''POST'' ?s) = [newOutput ''POST'' ?s]"
    by blast
  from bad n e d
  have "StatusCodes (Writer (Ctx (newGinHandler (exampleEnv okReply) ''POST'' ?c)))
        = StatusCodes (Writer ?c) @ [400]"
    and "Written (Writer (Ctx (newGinHandler (exampleEnv okReply) ''POST'' ?c)))
        = Written (Writer ?c) @ Error ?err @ [CHR 0x0A]"
    and "Invoked (newGinHandler (exampleEnv okReply) ''POST'' ?c) = []"
    by blast+
  with h n e d sp i w show ?thesis
    by simp
qed

text \<open>
  The claim as stated fails for a body of one space: it is not empty and is not a JSON
  value, yet the handler is invoked and the status is 200.
\<close>

theorem C6_whitespace_body_reaches_handler:
  "Header_Get (Header (request ''application/json'' '' '')) ''Content-Type''
     = ''application/json'' \<and>
   bytes (Body (request ''application/json'' '' '')) = '' '' \<and>
   jsonUnmarshal '' '' = Inl (Err ''unexpected end of JSON input'') \<and>
   Invoked (newGinHandler (exampleEnv okReply) ''POST'' (request ''application/json'' '' ''))
     = [newOutput ''POST'' (request ''application/json'' '' '')] \<and>
   StatusCodes (Writer (Ctx (newGinHandler (exampleEnv okReply) ''POST''
       (request ''application/json'' '' '')))) = [200]"
proof -
  let ?c = "request ''application/json'' '' ''"
  have h: "Header_Get (Header ?c) ''Content-Type'' = ''application/json''"
    by (simp add: request_def Header_Get_def canonical_Content_Type)
  have u: "jsonUnmarshal '' '' = Inl (Err ''unexpected end of JSON input'')"
    by code_simp
  have d: "Decode (exampleEnv okReply) (Body ?c) = DecodeFailed EOF"
    by (rule Decode_spaces) (simp_all add: request_def isSpace_def byte_def)
  have r: "readContent (exampleEnv okReply) ?c = Proceed VNil"
    using h d by (simp add: readContent_def)
  have w: "Writer (writeReply (exampleEnv okReply) okReply ?c)
      = \<lparr>RespHeader = Map.empty, StatusCodes = [200], Written = []\<rparr>"
    by (simp add: writeReply_def okReply_def request_def emptyWriter_def WriteHeader_def StatusOK_def)
  have "Ctx (newGinHandler (exampleEnv okReply) ''POST'' ?c)
      = writeReply (exampleEnv okReply) okReply ?c"
    by (rule newGinHandler_reply [OF r]) (simp_all add: exampleEnv_def)
  with w h u newGinHandler_Proceed [OF r, of "''POST''"] show ?thesis
    by (simp add: newOutput_update_VNil request_def)
qed

text \<open>
  C4, as the code has it: for a content type that is neither
  \<open>application/x-www-form-urlencoded\<close> nor \<open>application/json\<close> the handler is
  never invoked. When the body is read without error, the closure stores its bytes as the
  string content of the message and returns, leaving the context as it found it: nothing
  is written to the response. When reading fails, it answers with status 400.
\<close>

theorem C4_other_content_type:
  assumes "Header_Get (Header c) ''Content-Type'' \<noteq> ''application/x-www-form-urlencoded''"
    and "Header_Get (Header c) ''Content-Type'' \<noteq> ''application/json''"
  shows "Invoked (newGinHandler E method c) = [] \<and>
         (readErr (Body c) = None \<longrightarrow>
            newGinHandler E method c
              = \<lparr>Ctx = c, Invoked = [],
                 Out = (newOutput method c)\<lparr>Content := VStr (bytes (Body c))\<rparr>\<rparr>) \<and>
         (\<forall>err. readErr (Body c) = Some err \<longrightarrow>
            Ctx (newGinHandler E method c)
              = c\<lparr>Writer := httpError (Writer c) (Error err) StatusBadRequest\<rparr>)"
  using assms
  by (cases "readErr (Body c)") (simp_all add: newGinHandler_def readContent_def Let_def)

theorem C4_other_content_type_witness:
  "Header_Get (Header (request ''text/plain'' ''hello'')) ''Content-Type''
     \<noteq> ''application/x-www-form-urlencoded'' \<and>
   Header_Get (Header (request ''text/plain'' ''hello'')) ''Content-Type''
     \<noteq> ''application/json'' \<and>
   readErr (Body (request ''text/plain'' ''hello'')) = None \<and>
   newGinHandler (exampleEnv okReply) ''POST'' (request ''text/plain'' ''hello'')
     = \<lparr>Ctx = request ''text/plain'' ''hello'', Invoked = [],
        Out = (newOutput ''POST'' (request ''text/plain'' ''hello''))
                \<lparr>Content := VStr ''hello''\<rparr>\<rparr> \<and>
   Header_Get (Header (untypedRequest ''raw'')) ''Content-Type'' = [] \<and>
   Content (Out (newGinHandler (exampleEnv okReply) ''PUT'' (untypedRequest ''raw'')))
     = VStr ''raw'' \<and>
   Invoked (newGinHandler (exampleEnv okReply) ''PUT'' (untypedRequest ''raw'')) = [] \<and>
   readErr (Body (brokenRequest ''text/plain'' ''hel'')) = Some (Err ''unexpected EOF'') \<and>
   StatusCodes (Writer (Ctx (newGinHandler (exampleEnv okReply) ''POST''
     (brokenRequest ''text/plain'' ''hel'')))) = [400] \<and>
   Invoked (newGinHandler (exampleEnv okReply) ''POST'' (brokenRequest ''text/plain'' ''hel'')) = []"
proof -
  let ?c = "request ''text/plain'' ''hello''"
  let ?u = "untypedRequest ''raw''"
  let ?f = "brokenRequest ''text/plain'' ''hel''"
  let ?E = "exampleEnv okReply"
  have h: "Header_Get (Header ?c) ''Content-Type'' = ''text/plain''"
    by (rule request_Content_Type)
  have n1: "Header_Get (Header ?c) ''Content-Type'' \<noteq> ''application/x-www-form-urlencoded''"
    and n2: "Header_Get (Header ?c) ''Content-Type'' \<noteq> ''application/json''"
    by (simp_all add: h)
  have b: "readErr (Body ?c) = None" "bytes (Body ?c) = ''hello''"
    by (simp_all add: request_def)
  have hu: "Header_Get (Header ?u) ''Content-Type'' = []"
    by (simp add: untypedRequest_def Header_Get_def)
  have bu: "readErr (Body ?u) = None" "bytes (Body ?u) = ''raw''"
    by (simp_all add: untypedRequest_def request_def)
  have hf: "Header_Get (Header ?f) ''Content-Type'' = ''text/plain''"
    by (simp add: brokenRequest_def request_Content_Type)
  have bf: "readErr (Body ?f) = Some (Err ''unexpected EOF'')"
    and wf: "StatusCodes (Writer ?f) = []"
    by (simp_all add: brokenRequest_def request_def emptyWriter_def)
  from C4_other_content_type [of ?c ?E "''POST''"] n1 n2 b
  have typed: "newGinHandler ?E ''POST'' ?c
      = \<lparr>Ctx = ?c, Invoked = [], Out = (newOutput ''POST'' ?c)\<lparr>Content := VStr ''hello''\<rparr>\<rparr>"
    by simp
  from C4_other_content_type [of ?u ?E "''PUT''"] hu bu
  have untyped: "Content (Out (newGinHandler ?E ''PUT'' ?u)) = VStr ''raw''"
    "Invoked (newGinHandler ?E ''PUT'' ?u) = []"
    by simp_all
  from C4_other_content_type [of ?f ?E "''POST''"] hf bf
  have broken: "Ctx (newGinHandler ?E ''POST'' ?f)
      = ?f\<lparr>Writer := httpError (Writer ?f) (Error (Err ''unexpected EOF'')) StatusBadRequest\<rparr>"
    "Invoked (newGinHandler ?E ''POST'' ?f) = []"
    by simp_all
  have status: "StatusCodes (Writer (Ctx (newGinHandler ?E ''POST'' ?f))) = [400]"
    unfolding broken(1) by (simp add: httpError_StatusCodes wf StatusBadRequest_def)
  from n1 n2 b(1) typed hu untyped bf status broken(2) show ?thesis
    by blast
qed

text \<open>
  The claim as stated fails for a \<open>text/plain\<close> request with the body \<open>hello\<close>:
  the closure leaves the response writer as it was, with no status code and no byte
  written.
\<close>

theorem C4_raw_body_not_returned:
  "Header_Get (Header (request ''text/plain'' ''hello'')) ''Content-Type'' = ''text/plain'' \<and>
   bytes (Body (request ''text/plain'' ''hello'')) = ''hello'' \<and>
   Content (Out (newGinHandler (exampleEnv okReply) ''POST'' (request ''text/plain'' ''hello'')))
     = VStr ''hello'' \<and>
   Writer (Ctx (newGinHandler (exampleEnv okReply) ''POST'' (request ''text/plain'' ''hello'')))
     = emptyWriter \<and>
   Written (Writer (Ctx (newGinHandler (exampleEnv okReply) ''POST''
     (request ''text/plain'' ''hello'')))) = []"
proof -
  let ?c = "request ''text/plain'' ''hello''"
  have h: "Header_Get (Header ?c) ''Content-Type'' = ''text/plain''"
    by (simp add: request_def Header_Get_def canonical_Content_Type)
  have r: "readContent (exampleEnv okReply) ?c = Returned (VStr ''hello'')"
    using h by (simp add: readContent_def) (simp add: request_def)
  show ?thesis
    using h by (simp add: newGinHandler_Returned [OF r]) (simp add: request_def emptyWriter_def)
qed

text \<open>
  C5: for a reply whose data is a string \<open>t\<close>, the response gets the Content-Type
  \<open>application/json; charset=UTF-8\<close> when \<open>json.Unmarshal\<close> accepts \<open>t\<close> and
  \<open>text/plain; charset=UTF-8\<close> otherwise, then the status code (200 for a code of 0),
  then the bytes of \<open>t\<close> themselves; the value \<open>Unmarshal\<close> produced occurs nowhere in
  the result.
\<close>

theorem C5_string_reply_verbatim:
  assumes "Data reply = VStr t"
  shows "Writer (writeReply E reply c)
           = \<lparr>RespHeader = (RespHeader (Writer c))
                (''Content-Type'' \<mapsto>
                   [if isl (Unmarshal E t) then ''text/plain; charset=UTF-8''
                    else ''application/json; charset=UTF-8'']),
              StatusCodes = StatusCodes (Writer c) @ [if Code reply = 0 then 200 else Code reply],
              Written = Written (Writer c) @ t\<rparr> \<and>
         (\<forall>method v results.
            readContent E c = Proceed v
              \<and> Handle E ((newOutput method c)\<lparr>Content := v\<rparr>) = Inr results
              \<and> FromMap E results = Inr reply
            \<longrightarrow> Ctx (newGinHandler E method c) = writeReply E reply c)"
proof -
  have "Writer (writeReply E reply c)
           = \<lparr>RespHeader = (RespHeader (Writer c))
                (''Content-Type'' \<mapsto>
                   [if isl (Unmarshal E t) then ''text/plain; charset=UTF-8''
                    else ''application/json; charset=UTF-8'']),
              StatusCodes = StatusCodes (Writer c) @ [if Code reply = 0 then 200 else Code reply],
              Written = Written (Writer c) @ t\<rparr>"
    using assms
    by (cases "Unmarshal E t")
       (simp_all add: writeReply_def Let_def setContentType_def Header_Set_def
          canonical_Content_Type Write_def WriteHeader_def StatusOK_def)
  then show ?thesis
    using newGinHandler_reply by blast
qed

lemma example_json_text: "jsonUnmarshal ''{ \"a\" : 1 }'' = Inr (VMap [(''a'', VNum ''1'')])"
  by code_simp

lemma example_plain_text: "isl (jsonUnmarshal ''hello'')"
  by code_simp

theorem C5_string_reply_verbatim_witness:
  "Data jsonTextReply = VStr ''{ \"a\" : 1 }'' \<and>
   Writer (Ctx (newGinHandler (exampleEnv jsonTextReply) ''GET'' (request ''application/json'' [])))
     = \<lparr>RespHeader = [''Content-Type'' \<mapsto> [''application/json; charset=UTF-8'']],
        StatusCodes = [202], Written = ''{ \"a\" : 1 }''\<rparr> \<and>
   Data plainTextReply = VStr ''hello'' \<and>
   Writer (Ctx (newGinHandler (exampleEnv plainTextReply) ''GET'' (request ''application/json'' [])))
     = \<lparr>RespHeader = [''Content-Type'' \<mapsto> [''text/plain; charset=UTF-8'']],
        StatusCodes = [200], Written = ''hello''\<rparr>"
proof -
  let ?c = "request ''application/json'' []"
  have w: "Writer ?c = \<lparr>RespHeader = Map.empty, StatusCodes = [], Written = []\<rparr>"
    by (simp add: request_def emptyWriter_def)
  have dj: "Data jsonTextReply = VStr ''{ \"a\" : 1 }''" and cj: "Code jsonTextReply = 202"
    by (simp_all add: jsonTextReply_def)
  have dp: "Data plainTextReply = VStr ''hello''" and cp: "Code plainTextReply = 0"
    by (simp_all add: plainTextReply_def)
  have uj: "\<not> isl (Unmarshal (exampleEnv jsonTextReply) ''{ \"a\" : 1 }'')"
    using example_json_text by (simp add: exampleEnv_def)
  have up: "isl (Unmarshal (exampleEnv plainTextReply) ''hello'')"
    using example_plain_text by (simp add: exampleEnv_def)
  from C5_string_reply_verbatim [OF dj, of "exampleEnv jsonTextReply" ?c] uj cj w
  have j: "Writer (writeReply (exampleEnv jsonTextReply) jsonTextReply ?c)
      = \<lparr>RespHeader = [''Content-Type'' \<mapsto> [''application/json; charset=UTF-8'']],
         StatusCodes = [202], Written = ''{ \"a\" : 1 }''\<rparr>"
    by simp
  from C5_string_reply_verbatim [OF dp, of "exampleEnv plainTextReply" ?c] up cp w
  have p: "Writer (writeReply (exampleEnv plainTextReply) plainTextReply ?c)
      = \<lparr>RespHeader = [''Content-Type'' \<mapsto> [''text/plain; charset=UTF-8'']],
         StatusCodes = [200], Written = ''hello''\<rparr>"
    by simp
  from dj dp j p show ?thesis
    unfolding example_empty_json_request by blast
qed

text \<open>Where the reply headers go: \<open>Header.Set\<close> over the entries of the reply.\<close>

lemma Header_Set_same: "Header_Set h key v (CanonicalMIMEHeaderKey key) = Some [v]"
  by (simp add: Header_Set_def)

lemma Header_Set_other: "k \<noteq> CanonicalMIMEHeaderKey key \<Longrightarrow> Header_Set h key v k = h k"
  by (simp add: Header_Set_def)

lemma fold_Header_Set_other:
  "key \<notin> set (map (\<lambda>kv. CanonicalMIMEHeaderKey (fst kv)) hs) \<Longrightarrow>
   fold (\<lambda>kv h. Header_Set h (fst kv) (snd kv)) hs h0 key = h0 key"
  by (induction hs arbitrary: h0) (auto simp: Header_Set_other)

lemma fold_Header_Set_distinct:
  "distinct (map (\<lambda>kv. CanonicalMIMEHeaderKey (fst kv)) hs) \<Longrightarrow> kv \<in> set hs \<Longrightarrow>
   fold (\<lambda>kv h. Header_Set h (fst kv) (snd kv)) hs h0 (CanonicalMIMEHeaderKey (fst kv))
     = Some [snd kv]"
proof (induction hs arbitrary: h0)
  case Nil
  then show ?case by simp
next
  case (Cons a hs)
  show ?case
  proof (cases "kv = a")
    case True
    from Cons.prems(1)
    have "fold (\<lambda>kv h. Header_Set h (fst kv) (snd kv)) hs (Header_Set h0 (fst a) (snd a))
            (CanonicalMIMEHeaderKey (fst a))
          = Header_Set h0 (fst a) (snd a) (CanonicalMIMEHeaderKey (fst a))"
      by (intro fold_Header_Set_other) simp
    with True show ?thesis
      by (simp add: Header_Set_same)
  next
    case False
    with Cons show ?thesis
      by simp
  qed
qed

lemma writeReply_Header:
  "Header (writeReply E reply c)
     = fold (\<lambda>kv h. Header_Set h (fst kv) (snd kv)) (ReplyHeaders reply) (Header c)"
  by (cases "Data reply"; cases "ReplyHeaders reply")
     (simp_all add: writeReply_def Let_def split: sum.splits)

lemma writeReply_Writer_frame:
  "Writer (writeReply E (reply\<lparr>ReplyHeaders := hs\<rparr>) c) = Writer (writeReply E reply c)"
  by (cases "Data reply")
     (simp_all add: writeReply_def Let_def split: sum.splits)

lemma writeReply_RespHeader_other:
  "key \<noteq> ''Content-Type'' \<Longrightarrow>
   RespHeader (Writer (writeReply E reply c)) key = RespHeader (Writer c) key"
  by (cases "Data reply")
     (simp_all add: writeReply_def Let_def setContentType_def Header_Set_def
        canonical_Content_Type Write_def WriteHeader_def split: sum.splits)

lemma writeReply_RespHeader_nil:
  "Data reply = VNil \<Longrightarrow> RespHeader (Writer (writeReply E reply c)) = RespHeader (Writer c)"
  by (simp add: writeReply_def Let_def WriteHeader_def)

text \<open>
  C1: the reply headers, when there are any, are set on the header map of the request,
  \<open>c.Request.Header\<close> (with keys that differ after canonicalisation, each key then
  reads back its value there), and not on the response: no key of the response header
  map but Content-Type changes, none at all changes for a reply without data, and the
  response writer ends up the same for any other reply headers \<open>hs\<close> in their place.
\<close>

theorem C1_reply_headers_on_request:
  assumes "ReplyHeaders reply \<noteq> []"
  shows "Header (writeReply E reply c)
           = fold (\<lambda>kv h. Header_Set h (fst kv) (snd kv)) (ReplyHeaders reply) (Header c) \<and>
         (distinct (map (\<lambda>kv. CanonicalMIMEHeaderKey (fst kv)) (ReplyHeaders reply)) \<longrightarrow>
            (\<forall>kv \<in> set (ReplyHeaders reply).
               Header_Get (Header (writeReply E reply c)) (fst kv) = snd kv)) \<and>
         (\<forall>key. key \<noteq> ''Content-Type'' \<longrightarrow>
            RespHeader (Writer (writeReply E reply c)) key = RespHeader (Writer c) key) \<and>
         (Data reply = VNil \<longrightarrow>
            RespHeader (Writer (writeReply E reply c)) = RespHeader (Writer c)) \<and>
         Writer (writeReply E reply c) = Writer (writeReply E (reply\<lparr>ReplyHeaders := hs\<rparr>) c) \<and>
         (\<forall>method v results.
            readContent E c = Proceed v
              \<and> Handle E ((newOutput method c)\<lparr>Content := v\<rparr>) = Inr results
              \<and> FromMap E results = Inr reply
            \<longrightarrow> Ctx (newGinHandler E method c) = writeReply E reply c)"
proof -
  have "Header_Get (Header (writeReply E reply c)) (fst kv) = snd kv"
    if "distinct (map (\<lambda>kv. CanonicalMIMEHeaderKey (fst kv)) (ReplyHeaders reply))"
      and "kv \<in> set (ReplyHeaders reply)" for kv
    using fold_Header_Set_distinct [OF that, of "Header c"]
    by (simp add: writeReply_Header Header_Get_def)
  then show ?thesis
    using newGinHandler_reply [of E c _ _ _ reply]
    by (simp add: writeReply_Header writeReply_RespHeader_other writeReply_RespHeader_nil
          writeReply_Writer_frame)
qed

lemma canonical_request_id: "CanonicalMIMEHeaderKey ''x-request-id'' = ''X-Request-Id''"
  by code_simp

lemma example_empty_object: "jsonReadValue ''{}'' None = Decoded (VMap []) []"
  by code_simp

lemma example_created: "isl (jsonUnmarshal ''created'')"
  by code_simp

theorem C1_reply_headers_on_request_witness:
  "ReplyHeaders createdReply \<noteq> [] \<and>
   distinct (map (\<lambda>kv. CanonicalMIMEHeaderKey (fst kv)) (ReplyHeaders createdReply)) \<and>
   Header_Get (Header (Ctx (newGinHandler (exampleEnv createdReply) ''POST''
       (request ''application/json'' ''{}'')))) ''x-request-id'' = ''42'' \<and>
   Header (Ctx (newGinHandler (exampleEnv createdReply) ''POST''
       (request ''application/json'' ''{}''))) ''X-Request-Id'' = Some [''42''] \<and>
   RespHeader (Writer (Ctx (newGinHandler (exampleEnv createdReply) ''POST''
       (request ''application/json'' ''{}'')))) ''X-Request-Id'' = None \<and>
   Writer (Ctx (newGinHandler (exampleEnv createdReply) ''POST''
       (request ''application/json'' ''{}'')))
     = \<lparr>RespHeader = [''Content-Type'' \<mapsto> [''text/plain; charset=UTF-8'']],
        StatusCodes = [201], Written = ''created''\<rparr> \<and>
   ReplyHeaders (createdReply\<lparr>Data := VNil\<rparr>) \<noteq> [] \<and>
   Data (createdReply\<lparr>Data := VNil\<rparr>) = VNil \<and>
   RespHeader (Writer (writeReply (exampleEnv createdReply) (createdReply\<lparr>Data := VNil\<rparr>)
       (request ''application/json'' ''{}''))) = Map.empty"
proof -
  let ?c = "request ''application/json'' ''{}''"
  let ?E = "exampleEnv createdReply"
  have ne: "ReplyHeaders createdReply \<noteq> []"
    and d: "distinct (map (\<lambda>kv. CanonicalMIMEHeaderKey (fst kv)) (ReplyHeaders createdReply))"
    and m: "(''x-request-id'', ''42'') \<in> set (ReplyHeaders createdReply)"
    by (simp_all add: createdReply_def)
  have h: "Header_Get (Header ?c) ''Content-Type'' = ''application/json''"
    by (simp add: request_def Header_Get_def canonical_Content_Type)
  have dec: "Decode ?E (Body ?c) = Decoded (VMap []) []"
    using example_empty_object
    by (simp add: Decode_def request_def exampleEnv_def isSpace_def byte_def)
  have r: "readContent ?E ?c = Proceed (VMap [])"
    using h dec by (simp add: readContent_def)
  have hd: "Handle ?E ((newOutput ''POST'' ?c)\<lparr>Content := VMap []\<rparr>) = Inr []"
    and fm: "FromMap ?E [] = Inr createdReply"
    by (simp_all add: exampleEnv_def)
  have w: "Writer (writeReply ?E createdReply ?c)
      = \<lparr>RespHeader = [''Content-Type'' \<mapsto> [''text/plain; charset=UTF-8'']],
         StatusCodes = [201], Written = ''created''\<rparr>"
    using example_created
    by (cases "jsonUnmarshal ''created''")
       (simp_all add: writeReply_def createdReply_def request_def emptyWriter_def Let_def
          exampleEnv_def setContentType_def Header_Set_def canonical_Content_Type
          Write_def WriteHeader_def)
  note main = C1_reply_headers_on_request [OF ne, where E = ?E and c = ?c and hs = "[]"]
  from main r hd fm
  have ctx: "Ctx (newGinHandler ?E ''POST'' ?c) = writeReply ?E createdReply ?c"
    by blast
  from main d m
  have g: "Header_Get (Header (writeReply ?E createdReply ?c)) (fst (''x-request-id'', ''42''))
      = snd (''x-request-id'', ''42'')"
    by blast
  from main
  have "Header (writeReply ?E createdReply ?c)
      = fold (\<lambda>kv h. Header_Set h (fst kv) (snd kv)) (ReplyHeaders createdReply) (Header ?c)"
    by blast
  then have x: "Header (writeReply ?E createdReply ?c) ''X-Request-Id'' = Some [''42'']"
    by (simp add: createdReply_def Header_Set_def canonical_request_id)
  have ne0: "ReplyHeaders (createdReply\<lparr>Data := VNil\<rparr>) \<noteq> []"
    and d0: "Data (createdReply\<lparr>Data := VNil\<rparr>) = VNil"
    by (simp_all add: createdReply_def)
  have w0: "RespHeader (Writer ?c) = Map.empty"
    by (simp add: request_def emptyWriter_def)
  from C1_reply_headers_on_request [OF ne0, where E = ?E and c = ?c and hs = "[]"] d0
  have "RespHeader (Writer (writeReply ?E (createdReply\<lparr>Data := VNil\<rparr>) ?c))
      = RespHeader (Writer ?c)"
    by blast
  with w0
  have nodata: "RespHeader (Writer (writeReply ?E (createdReply\<lparr>Data := VNil\<rparr>) ?c)) = Map.empty"
    by simp
  from ne d g x ne0 d0 nodata show ?thesis
    by (simp add: ctx w)
qed


end
